theory Spec2Isabelle
  imports Complex_Main
begin

section \<open>JavaScript numbers\<close>

text \<open>
  The program computes sizes with JavaScript numbers. Pixel counts and the size options
  are natural numbers; the quotients and products formed from them are modelled by exact
  rationals, together with the two special values that division can produce from
  non-negative operands: \<open>Infinity\<close> (a positive number divided by zero) and \<open>NaN\<close>
  (\<open>0 / 0\<close>, \<open>0 * Infinity\<close>, \<open>Infinity / Infinity\<close>). Every operand of the program is
  non-negative (the inputs are naturals, and multiplication, division, rounding and
  minimum keep that), so negative zero and negative infinity never arise and are not
  represented. The rounding of binary64 arithmetic is not represented either: a quotient
  is the exact rational.
\<close>

datatype jsnum = Fin rat | PInf | NaN

definition num :: "nat \<Rightarrow> jsnum" where
  "num n = Fin (of_nat n)"

fun jmul :: "jsnum \<Rightarrow> jsnum \<Rightarrow> jsnum" where
  "jmul (Fin a) (Fin b) = Fin (a * b)"
| "jmul (Fin a) PInf = (if a = 0 then NaN else PInf)"
| "jmul PInf (Fin b) = (if b = 0 then NaN else PInf)"
| "jmul PInf PInf = PInf"
| "jmul NaN _ = NaN"
| "jmul _ NaN = NaN"

fun jdiv :: "jsnum \<Rightarrow> jsnum \<Rightarrow> jsnum" where
  "jdiv (Fin a) (Fin b) = (if b = 0 then (if a = 0 then NaN else PInf) else Fin (a / b))"
| "jdiv (Fin a) PInf = Fin 0"
| "jdiv PInf (Fin b) = PInf"
| "jdiv PInf PInf = NaN"
| "jdiv NaN _ = NaN"
| "jdiv _ NaN = NaN"

text \<open>\<open>Math.round\<close> rounds to the nearest integer, a half towards plus infinity.\<close>

fun Math_round :: "jsnum \<Rightarrow> jsnum" where
  "Math_round (Fin q) = Fin (of_int \<lfloor>q + 1 / 2\<rfloor>)"
| "Math_round PInf = PInf"
| "Math_round NaN = NaN"

fun Math_min :: "jsnum \<Rightarrow> jsnum \<Rightarrow> jsnum" where
  "Math_min (Fin a) (Fin b) = Fin (min a b)"
| "Math_min (Fin a) PInf = Fin a"
| "Math_min PInf (Fin b) = Fin b"
| "Math_min PInf PInf = PInf"
| "Math_min NaN _ = NaN"
| "Math_min _ NaN = NaN"

text \<open>The comparisons \<open><\<close>, \<open>>\<close> and \<open><=\<close>: false as soon as one side is \<open>NaN\<close>.\<close>

fun jlt :: "jsnum \<Rightarrow> jsnum \<Rightarrow> bool" where
  "jlt (Fin a) (Fin b) = (a < b)"
| "jlt (Fin a) PInf = True"
| "jlt PInf _ = False"
| "jlt NaN _ = False"
| "jlt _ NaN = False"

definition jgt :: "jsnum \<Rightarrow> jsnum \<Rightarrow> bool" where
  "jgt a b = jlt b a"


text \<open>The strict inequality \<open>!==\<close> of two numbers: \<open>NaN\<close> differs from everything.\<close>

definition strict_neq :: "jsnum \<Rightarrow> jsnum \<Rightarrow> bool" where
  "strict_neq a b = (a = NaN \<or> b = NaN \<or> a \<noteq> b)"

text \<open>
  An optional numeric field (\<open>width?: number\<close>) is \<open>None\<close> when absent. The tests
  \<open>options.width && ...\<close> ask for truthiness: an absent field and the number 0 are falsy.
\<close>

fun truthy :: "nat option \<Rightarrow> bool" where
  "truthy None = False"
| "truthy (Some n) = (n \<noteq> 0)"

text \<open>
  Used as a number, a present field is its value and \<open>undefined\<close> is \<open>NaN\<close>.
\<close>

fun toNum :: "nat option \<Rightarrow> jsnum" where
  "toNum None = NaN"
| "toNum (Some n) = num n"

fun truthy_bool :: "bool option \<Rightarrow> bool" where
  "truthy_bool None = False"
| "truthy_bool (Some b) = b"

section \<open>Types (types.ts)\<close>

type_synonym ImageFormat = string

record ImageProcessingOptions =
  format :: ImageFormat
  width :: "nat option"
  height :: "nat option"
  minWidth :: "nat option"
  minHeight :: "nat option"
  maxWidth :: "nat option"
  maxHeight :: "nat option"
  quality :: "nat option"
  allowUpscale :: "bool option"

section \<open>The dimension resolver (imageProcessor.ts, calculateTargetDimensions)\<close>

text \<open>
  The function keeps two mutable variables, \<open>targetWidth\<close> and \<open>targetHeight\<close>, and
  runs five blocks over them in sequence. Each block is a function from the pair of
  variables to the pair after the block; an assignment is a \<open>let\<close> that rebinds the
  variable, so that a later read sees the assigned value as in the source.
\<close>

text \<open>Lines 24 to 39: the requested width and height.\<close>

definition applySize ::
  "nat \<Rightarrow> nat \<Rightarrow> ('a ImageProcessingOptions_scheme) \<Rightarrow> jsnum \<times> jsnum \<Rightarrow> jsnum \<times> jsnum" where
  "applySize originalWidth originalHeight options v =
    (case v of (targetWidth, targetHeight) \<Rightarrow>
      if truthy (width options) \<and> \<not> truthy (height options) then
        (let targetWidth = toNum (width options);
             targetHeight = Math_round (jdiv (jmul (num originalHeight) (toNum (width options)))
                                             (num originalWidth))
         in (targetWidth, targetHeight))
      else if truthy (height options) \<and> \<not> truthy (width options) then
        (let targetHeight = toNum (height options);
             targetWidth = Math_round (jdiv (jmul (num originalWidth) (toNum (height options)))
                                            (num originalHeight))
         in (targetWidth, targetHeight))
      else if truthy (width options) \<and> truthy (height options) then
        (let widthRatio = jdiv (toNum (width options)) (num originalWidth);
             heightRatio = jdiv (toNum (height options)) (num originalHeight);
             ratio = Math_min widthRatio heightRatio;
             targetWidth = Math_round (jmul (num originalWidth) ratio);
             targetHeight = Math_round (jmul (num originalHeight) ratio)
         in (targetWidth, targetHeight))
      else (targetWidth, targetHeight))"

text \<open>Lines 42 to 51: the minimum width.\<close>

definition applyMinWidth ::
  "('a ImageProcessingOptions_scheme) \<Rightarrow> jsnum \<times> jsnum \<Rightarrow> jsnum \<times> jsnum" where
  "applyMinWidth options v =
    (case v of (targetWidth, targetHeight) \<Rightarrow>
      if truthy (minWidth options) \<and> jlt targetWidth (toNum (minWidth options)) then
        (if truthy_bool (allowUpscale options) then
           (let scale = jdiv (toNum (minWidth options)) targetWidth;
                targetWidth = toNum (minWidth options);
                targetHeight = Math_round (jmul targetHeight scale)
            in (targetWidth, targetHeight))
         else
           (let targetWidth = toNum (minWidth options);
                targetHeight = Math_round (jdiv (jmul targetHeight (toNum (minWidth options)))
                                                targetWidth)
            in (targetWidth, targetHeight)))
      else (targetWidth, targetHeight))"

text \<open>Lines 52 to 61: the minimum height.\<close>

definition applyMinHeight ::
  "('a ImageProcessingOptions_scheme) \<Rightarrow> jsnum \<times> jsnum \<Rightarrow> jsnum \<times> jsnum" where
  "applyMinHeight options v =
    (case v of (targetWidth, targetHeight) \<Rightarrow>
      if truthy (minHeight options) \<and> jlt targetHeight (toNum (minHeight options)) then
        (if truthy_bool (allowUpscale options) then
           (let scale = jdiv (toNum (minHeight options)) targetHeight;
                targetHeight = toNum (minHeight options);
                targetWidth = Math_round (jmul targetWidth scale)
            in (targetWidth, targetHeight))
         else
           (let targetHeight = toNum (minHeight options);
                targetWidth = Math_round (jdiv (jmul targetWidth (toNum (minHeight options)))
                                               targetHeight)
            in (targetWidth, targetHeight)))
      else (targetWidth, targetHeight))"

text \<open>Lines 64 to 68: the maximum width.\<close>

definition applyMaxWidth ::
  "('a ImageProcessingOptions_scheme) \<Rightarrow> jsnum \<times> jsnum \<Rightarrow> jsnum \<times> jsnum" where
  "applyMaxWidth options v =
    (case v of (targetWidth, targetHeight) \<Rightarrow>
      if truthy (maxWidth options) \<and> jgt targetWidth (toNum (maxWidth options)) then
        (let scale = jdiv (toNum (maxWidth options)) targetWidth;
             targetWidth = toNum (maxWidth options);
             targetHeight = Math_round (jmul targetHeight scale)
         in (targetWidth, targetHeight))
      else (targetWidth, targetHeight))"

text \<open>Lines 69 to 73: the maximum height.\<close>

definition applyMaxHeight ::
  "('a ImageProcessingOptions_scheme) \<Rightarrow> jsnum \<times> jsnum \<Rightarrow> jsnum \<times> jsnum" where
  "applyMaxHeight options v =
    (case v of (targetWidth, targetHeight) \<Rightarrow>
      if truthy (maxHeight options) \<and> jgt targetHeight (toNum (maxHeight options)) then
        (let scale = jdiv (toNum (maxHeight options)) targetHeight;
             targetHeight = toNum (maxHeight options);
             targetWidth = Math_round (jmul targetWidth scale)
         in (targetWidth, targetHeight))
      else (targetWidth, targetHeight))"

definition calculateTargetDimensions ::
  "nat \<Rightarrow> nat \<Rightarrow> ('a ImageProcessingOptions_scheme) \<Rightarrow> jsnum \<times> jsnum" where
  "calculateTargetDimensions originalWidth originalHeight options =
    applyMaxHeight options
      (applyMaxWidth options
        (applyMinHeight options
          (applyMinWidth options
            (applySize originalWidth originalHeight options
              (num originalWidth, num originalHeight)))))"

section \<open>Exceptions\<close>

text \<open>
  A thrown value is an \<open>Error\<close> object with its message, or some other value, kept as
  the string that \<open>String(error)\<close> renders. A computation that may throw returns a sum,
  \<open>Inl\<close> the thrown value.
\<close>

datatype exn = Error string | Thrown string

fun message_of :: "exn \<Rightarrow> string" where
  "message_of (Error m) = m"
| "message_of (Thrown v) = v"

section \<open>Formats (config.ts)\<close>

text \<open>
  Strings are lists of 8-bit characters, read as the code points U+0000 to U+00FF.
  On these, \<open>toLowerCase\<close> moves the letters A to Z and the capital letters of Latin-1
  (U+00C0 to U+00DE, the multiplication sign U+00D7 apart) 32 places up.
\<close>

definition lowerChar :: "char \<Rightarrow> char" where
  "lowerChar c =
    (let n = (of_char c :: nat)
     in if 65 \<le> n \<and> n \<le> 90 then char_of (n + 32)
        else if 192 \<le> n \<and> n \<le> 222 \<and> n \<noteq> 215 then char_of (n + 32)
        else c)"

definition toLowerCase :: "string \<Rightarrow> string" where
  "toLowerCase s = map lowerChar s"

definition SUPPORTED_OUTPUT_FORMATS :: "ImageFormat list" where
  "SUPPORTED_OUTPUT_FORMATS =
    [''jpg'', ''jpeg'', ''png'', ''webp'', ''gif'', ''tiff'', ''bmp'', ''avif'']"

definition QUALITY_SUPPORTED_FORMATS :: "ImageFormat list" where
  "QUALITY_SUPPORTED_FORMATS = [''jpg'', ''jpeg'', ''webp'', ''avif'']"

definition isSupportedOutputFormat :: "string \<Rightarrow> bool" where
  "isSupportedOutputFormat fmt = List.member SUPPORTED_OUTPUT_FORMATS (toLowerCase fmt)"

definition formatSupportsQuality :: "ImageFormat \<Rightarrow> bool" where
  "formatSupportsQuality fmt = List.member QUALITY_SUPPORTED_FORMATS fmt"

definition normalizeFormat :: "string \<Rightarrow> exn + ImageFormat" where
  "normalizeFormat fmt =
    (let normalized = toLowerCase fmt
     in if normalized = ''jpg'' then Inr ''jpeg''
        else if isSupportedOutputFormat normalized then Inr normalized
        else Inl (Error (''Unsupported format: '' @ fmt)))"

section \<open>The outside world\<close>

text \<open>
  The file system and the image library are outside the program. Their state is a value of
  an arbitrary type \<open>'w\<close>, a pipeline object of the image library a value of an arbitrary
  type \<open>'p\<close>, and their operations are the fields of an environment: each one may throw,
  and those that touch the file system return the world after the call. Nothing is assumed
  about them. The functions of Node's \<open>path\<close> module are fields of the environment too.
\<close>

type_synonym path = string

record Stats =
  stat_size :: nat
  stat_isDirectory :: bool

record Dirent =
  name :: string
  isDirectory :: bool
  isFile :: bool

record Metadata =
  md_width :: "nat option"
  md_height :: "nat option"

record ResizeOptions =
  fit :: string
  withoutEnlargement :: bool

record ('w, 'p) Env =
  fs_stat :: "path \<Rightarrow> 'w \<Rightarrow> (exn + Stats) \<times> 'w"
  fs_access :: "path \<Rightarrow> 'w \<Rightarrow> (exn + unit) \<times> 'w"
  fs_mkdir :: "path \<Rightarrow> 'w \<Rightarrow> (exn + unit) \<times> 'w"
  fs_readdir :: "path \<Rightarrow> 'w \<Rightarrow> (exn + Dirent list) \<times> 'w"
  sharp :: "path \<Rightarrow> exn + 'p"
  sharp_metadata :: "'p \<Rightarrow> 'w \<Rightarrow> (exn + Metadata) \<times> 'w"
  sharp_resize :: "'p \<Rightarrow> jsnum \<Rightarrow> jsnum \<Rightarrow> ResizeOptions \<Rightarrow> exn + 'p"
  sharp_toFormat :: "'p \<Rightarrow> string \<Rightarrow> nat option \<Rightarrow> exn + 'p"
  sharp_toFile :: "'p \<Rightarrow> path \<Rightarrow> 'w \<Rightarrow> (exn + unit) \<times> 'w"
  path_dirname :: "path \<Rightarrow> path"
  path_extname :: "path \<Rightarrow> string"
  path_basename :: "path \<Rightarrow> string \<Rightarrow> string"
  path_relative :: "path \<Rightarrow> path \<Rightarrow> path"
  path_join :: "path \<Rightarrow> path \<Rightarrow> path"

text \<open>
  The state threaded through the program is the world together with the list of the calls
  made on it so far, in order. A computation takes the state and returns the value or the
  thrown exception, and the state after it.
\<close>

datatype io_call =
  Stat path | Access path | Mkdir path | Readdir path | ReadMetadata path | ToFile path

record 'w state =
  world :: 'w
  calls :: "io_call list"

type_synonym ('w, 'a) io = "'w state \<Rightarrow> (exn + 'a) \<times> 'w state"

definition call :: "io_call \<Rightarrow> ('w \<Rightarrow> (exn + 'a) \<times> 'w) \<Rightarrow> ('w, 'a) io" where
  "call c f s = (case f (world s) of (r, w) \<Rightarrow> (r, \<lparr>world = w, calls = calls s @ [c]\<rparr>))"

definition ret :: "'a \<Rightarrow> ('w, 'a) io" where
  "ret v s = (Inr v, s)"

definition throw :: "exn \<Rightarrow> ('w, 'a) io" where
  "throw e s = (Inl e, s)"

definition lift :: "exn + 'a \<Rightarrow> ('w, 'a) io" where
  "lift r s = (r, s)"

definition andThen :: "('w, 'a) io \<Rightarrow> ('a \<Rightarrow> ('w, 'b) io) \<Rightarrow> ('w, 'b) io" where
  "andThen m f s = (case m s of (Inl e, s') \<Rightarrow> (Inl e, s') | (Inr v, s') \<Rightarrow> f v s')"

definition try_catch :: "('w, 'a) io \<Rightarrow> (exn \<Rightarrow> ('w, 'a) io) \<Rightarrow> ('w, 'a) io" where
  "try_catch body handler s =
    (case body s of (Inl e, s') \<Rightarrow> handler e s' | (Inr v, s') \<Rightarrow> (Inr v, s'))"

section \<open>The single-image converter (imageProcessor.ts, processImage)\<close>

record ProcessResult =
  inputPath :: path
  outputPath :: path
  success :: bool
  error :: "string option"
  originalSize :: "nat option"
  newSize :: "nat option"

text \<open>
  The fields of a record are constants, so a parameter or local variable of the source
  that has the name of a field is renamed: \<open>inPath\<close> and \<open>outPath\<close> for the paths,
  \<open>newWidth\<close> and \<open>newHeight\<close> for the resolved size, \<open>fmt\<close> for the format and
  \<open>err\<close> for the caught exception.
\<close>

text \<open>The \<open>try\<close> block, lines 92 to 141.\<close>

definition processImage_try ::
  "('w, 'p) Env \<Rightarrow> path \<Rightarrow> path \<Rightarrow> 'a ImageProcessingOptions_scheme \<Rightarrow> ('w, ProcessResult) io" where
  "processImage_try env inPath outPath options =
      (andThen (call (Stat inPath) (fs_stat env inPath)) (\<lambda>originalStats.
       let originalSize = stat_size originalStats in
       andThen (lift (sharp env inPath)) (\<lambda>image.
       andThen (call (ReadMetadata inPath) (sharp_metadata env image)) (\<lambda>metadata.
       case md_width metadata of
         None \<Rightarrow> throw (Error ''Unable to read image dimensions'')
       | Some metadata_width \<Rightarrow>
       case md_height metadata of
         None \<Rightarrow> throw (Error ''Unable to read image dimensions'')
       | Some metadata_height \<Rightarrow>
       if metadata_width = 0 \<or> metadata_height = 0
       then throw (Error ''Unable to read image dimensions'')
       else
       case calculateTargetDimensions metadata_width metadata_height options of
         (newWidth, newHeight) \<Rightarrow>
       andThen (lift (sharp env inPath)) (\<lambda>pipeline.
       andThen
         (if strict_neq newWidth (num metadata_width) \<or> strict_neq newHeight (num metadata_height)
          then lift (sharp_resize env pipeline newWidth newHeight
                 \<lparr>fit = ''inside'',
                  withoutEnlargement = (\<not> truthy_bool (allowUpscale options))\<rparr>)
          else ret pipeline) (\<lambda>pipeline.
       andThen (lift (normalizeFormat (format options))) (\<lambda>fmt.
       let sharpFormat = (if fmt = ''jpeg'' then ''jpg'' else fmt) in
       andThen
         (if formatSupportsQuality fmt \<and> quality options \<noteq> None
          then lift (sharp_toFormat env pipeline sharpFormat (quality options))
          else lift (sharp_toFormat env pipeline sharpFormat None)) (\<lambda>pipeline.
       andThen (call (ToFile outPath) (sharp_toFile env pipeline outPath)) (\<lambda>_.
       andThen (call (Stat outPath) (fs_stat env outPath)) (\<lambda>newStats.
       let newSize = stat_size newStats in
       ret \<lparr>inputPath = inPath, outputPath = outPath, success = True,
            error = None, originalSize = Some originalSize, newSize = Some newSize\<rparr>))))))))))"

text \<open>The function: the \<open>try\<close> block and its \<open>catch\<close>, lines 142 to 149.\<close>

definition processImage ::
  "('w, 'p) Env \<Rightarrow> path \<Rightarrow> path \<Rightarrow> 'a ImageProcessingOptions_scheme \<Rightarrow> ('w, ProcessResult) io" where
  "processImage env inPath outPath options =
    try_catch (processImage_try env inPath outPath options)
      (\<lambda>err.
       ret \<lparr>inputPath = inPath, outputPath = outPath, success = False,
            error = Some (message_of err), originalSize = None, newSize = None\<rparr>)"

definition getFileExtension :: "('w, 'p) Env \<Rightarrow> path \<Rightarrow> string" where
  "getFileExtension env filePath =
    (let ext = toLowerCase (path_extname env filePath) in drop 1 ext)"

definition isImageExtension :: "string \<Rightarrow> bool" where
  "isImageExtension extension =
    (let imageExtensions =
       [''jpg'', ''jpeg'', ''png'', ''webp'', ''gif'', ''tiff'', ''tif'', ''bmp'', ''avif'',
        ''heic'', ''heif'']
     in List.member imageExtensions (toLowerCase extension))"

section \<open>Batch conversion (index.ts)\<close>

text \<open>The fields \<open>input\<close> and \<open>output\<close> are named \<open>cli_input\<close> and \<open>cli_output\<close> here.\<close>

record CliOptions = ImageProcessingOptions +
  cli_input :: string
  cli_output :: string
  recursive :: "bool option"
  overwrite :: "bool option"
  dryRun :: "bool option"
  verbose :: "bool option"
  silent :: "bool option"
  config :: "string option"

text \<open>The field \<open>total\<close> of the summary is named \<open>total_count\<close> here.\<close>

record ProcessingSummary =
  total_count :: nat
  successful :: nat
  failed :: nat
  results :: "ProcessResult list"

text \<open>
  The pattern \<open>try { await m; return r } catch { }\<close> followed by the rest of the function:
  when \<open>m\<close> does not throw the function returns at once, when it throws the exception is
  dropped and the rest runs.
\<close>

definition ifSucceeds :: "('w, 'a) io \<Rightarrow> ('w, 'b) io \<Rightarrow> ('w, 'b) io \<Rightarrow> ('w, 'b) io" where
  "ifSucceeds m returned rest s =
    (case m s of (Inr _, s') \<Rightarrow> returned s' | (Inl _, s') \<Rightarrow> rest s')"

definition existsFailure :: "path \<Rightarrow> path \<Rightarrow> ProcessResult" where
  "existsFailure inPath outPath =
    \<lparr>inputPath = inPath, outputPath = outPath, success = False,
     error = Some ''Output file already exists. Use --overwrite to replace it.'',
     originalSize = None, newSize = None\<rparr>"

definition convertSingleImage ::
  "('w, 'p) Env \<Rightarrow> path \<Rightarrow> path \<Rightarrow> 'a CliOptions_scheme \<Rightarrow> ('w, ProcessResult) io" where
  "convertSingleImage env inPath outPath options =
    (let outputDir = path_dirname env outPath;
         process =
           andThen (lift (normalizeFormat (format options))) (\<lambda>fmt.
             processImage env inPath outPath
               \<lparr>format = fmt, width = width options, height = height options,
                minWidth = minWidth options, minHeight = minHeight options,
                maxWidth = maxWidth options, maxHeight = maxHeight options,
                quality = quality options, allowUpscale = allowUpscale options\<rparr>)
     in andThen (call (Mkdir outputDir) (fs_mkdir env outputDir)) (\<lambda>_.
          if \<not> truthy_bool (overwrite options)
          then ifSucceeds (call (Access outPath) (fs_access env outPath))
                 (ret (existsFailure inPath outPath)) process
          else process))"

text \<open>
  \<open>findImageFiles\<close> calls itself on every subdirectory. Nothing bounds the depth of the
  directories that the environment reports, so the function takes fuel, one unit for each
  level, and returns \<open>None\<close> when it runs out. \<open>scanEntries\<close> is its loop over the
  entries of one directory, with the list \<open>imageFiles\<close> collected so far.
\<close>

fun findImageFiles ::
    "nat \<Rightarrow> ('w, 'p) Env \<Rightarrow> path \<Rightarrow> bool \<Rightarrow> 'w state \<Rightarrow> ((exn + path list) \<times> 'w state) option"
  and scanEntries ::
    "nat \<Rightarrow> ('w, 'p) Env \<Rightarrow> path \<Rightarrow> bool \<Rightarrow> Dirent list \<Rightarrow> path list \<Rightarrow> 'w state
      \<Rightarrow> ((exn + path list) \<times> 'w state) option" where
  "findImageFiles 0 env dirPath recurse s = None"
| "findImageFiles (Suc fuel) env dirPath recurse s =
    (case call (Readdir dirPath) (fs_readdir env dirPath) s of
       (Inl e, s') \<Rightarrow> Some (Inl e, s')
     | (Inr entries, s') \<Rightarrow> scanEntries fuel env dirPath recurse entries [] s')"
| "scanEntries fuel env dirPath recurse [] imageFiles s = Some (Inr imageFiles, s)"
| "scanEntries fuel env dirPath recurse (entry # entries) imageFiles s =
    (let fullPath = path_join env dirPath (name entry)
     in if isDirectory entry \<and> recurse then
          (case findImageFiles fuel env fullPath recurse s of
             None \<Rightarrow> None
           | Some (Inl e, s') \<Rightarrow> Some (Inl e, s')
           | Some (Inr subFiles, s') \<Rightarrow>
               scanEntries fuel env dirPath recurse entries (imageFiles @ subFiles) s')
        else if isFile entry then
          (let ext = getFileExtension env (name entry)
           in if isImageExtension ext
              then scanEntries fuel env dirPath recurse entries (imageFiles @ [fullPath]) s
              else scanEntries fuel env dirPath recurse entries imageFiles s)
        else scanEntries fuel env dirPath recurse entries imageFiles s)"

definition generateOutputPath :: "('w, 'p) Env \<Rightarrow> path \<Rightarrow> path \<Rightarrow> path \<Rightarrow> string \<Rightarrow> path" where
  "generateOutputPath env inPath inputDir outputDir fmt =
    (let relativePath = path_relative env inputDir inPath;
         dirname = path_dirname env relativePath;
         basename = path_basename env relativePath (path_extname env relativePath);
         outputSubDir = (if dirname = ''.'' then outputDir else path_join env outputDir dirname);
         outputFileName = basename @ ''.'' @ fmt
     in path_join env outputSubDir outputFileName)"

text \<open>
  The body of the loop of \<open>convertDirectory\<close> (lines 143 to 179), for one input path. It
  yields the result that the iteration pushes: the \<open>continue\<close> after the first push ends
  the iteration there.
\<close>

definition convertDirectory_body ::
  "('w, 'p) Env \<Rightarrow> path \<Rightarrow> path \<Rightarrow> string \<Rightarrow> 'a CliOptions_scheme \<Rightarrow> path \<Rightarrow> ('w, ProcessResult) io" where
  "convertDirectory_body env inputDir outputDir fmt options inPath =
    (let outPath = generateOutputPath env inPath inputDir outputDir fmt;
         process =
           (let outputSubDir = path_dirname env outPath
            in andThen (call (Mkdir outputSubDir) (fs_mkdir env outputSubDir)) (\<lambda>_.
                 processImage env inPath outPath
                   \<lparr>format = fmt, width = width options, height = height options,
                    minWidth = minWidth options, minHeight = minHeight options,
                    maxWidth = maxWidth options, maxHeight = maxHeight options,
                    quality = quality options, allowUpscale = allowUpscale options\<rparr>))
     in if \<not> truthy_bool (overwrite options)
        then ifSucceeds (call (Access outPath) (fs_access env outPath))
               (ret (existsFailure inPath outPath)) process
        else process)"

text \<open>The loop over \<open>imageFiles\<close> (line 142), with the list \<open>results\<close> built so far.\<close>

fun convertDirectory_loop ::
  "('w, 'p) Env \<Rightarrow> path \<Rightarrow> path \<Rightarrow> string \<Rightarrow> 'a CliOptions_scheme \<Rightarrow> path list
    \<Rightarrow> ProcessResult list \<Rightarrow> ('w, ProcessResult list) io" where
  "convertDirectory_loop env inputDir outputDir fmt options [] rs s = (Inr rs, s)"
| "convertDirectory_loop env inputDir outputDir fmt options (inPath # rest) rs s =
    (case convertDirectory_body env inputDir outputDir fmt options inPath s of
       (Inl e, s') \<Rightarrow> (Inl e, s')
     | (Inr r, s') \<Rightarrow>
         convertDirectory_loop env inputDir outputDir fmt options rest (rs @ [r]) s')"

definition convertDirectory ::
  "nat \<Rightarrow> ('w, 'p) Env \<Rightarrow> path \<Rightarrow> path \<Rightarrow> 'a CliOptions_scheme \<Rightarrow> 'w state
    \<Rightarrow> ((exn + ProcessingSummary) \<times> 'w state) option" where
  "convertDirectory fuel env inputDir outputDir options s =
    (case call (Mkdir outputDir) (fs_mkdir env outputDir) s of
       (Inl e, s1) \<Rightarrow> Some (Inl e, s1)
     | (Inr _, s1) \<Rightarrow>
    (case findImageFiles fuel env inputDir
            (case recursive options of None \<Rightarrow> False | Some b \<Rightarrow> b) s1 of
       None \<Rightarrow> None
     | Some (Inl e, s2) \<Rightarrow> Some (Inl e, s2)
     | Some (Inr imageFiles, s2) \<Rightarrow>
         if length imageFiles = 0
         then Some (Inr \<lparr>total_count = 0, successful = 0, failed = 0, results = []\<rparr>, s2)
         else Some
           (andThen (lift (normalizeFormat (format options))) (\<lambda>fmt.
            andThen (convertDirectory_loop env inputDir outputDir fmt options imageFiles [])
              (\<lambda>rs.
                 let successful = length (filter (\<lambda>r. success r) rs);
                     failed = length (filter (\<lambda>r. \<not> success r) rs)
                 in ret \<lparr>total_count = length rs, successful = successful,
                         failed = failed, results = rs\<rparr>)) s2)))"

section \<open>A pair of sizes without indeterminate forms\<close>

text \<open>
  No component is \<open>NaN\<close>, the two are not both zero and not both infinite: then scaling one
  by a ratio formed with the other never computes \<open>0 * Infinity\<close> or \<open>0 / 0\<close>.
\<close>

definition sane :: "jsnum \<times> jsnum \<Rightarrow> bool" where
  "sane v = (case v of (w, h) \<Rightarrow>
     w \<noteq> NaN \<and> h \<noteq> NaN \<and> (w \<noteq> Fin 0 \<or> h \<noteq> Fin 0) \<and> (w \<noteq> PInf \<or> h \<noteq> PInf))"

section \<open>Results of a computation\<close>



text \<open>A computation only adds calls to the list of the calls made.\<close>

definition grows :: "('w, 'a) io \<Rightarrow> bool" where
  "grows m = (\<forall>s r s'. m s = (r, s') \<longrightarrow> (\<exists>cs. calls s' = calls s @ cs))"

section \<open>Example inputs\<close>

definition noOptions :: ImageProcessingOptions where
  "noOptions =
    \<lparr>format = ''png'', width = None, height = None, minWidth = None, minHeight = None,
     maxWidth = None, maxHeight = None, quality = None, allowUpscale = None\<rparr>"

text \<open>
  A small environment to run the model on. The world is the list of the files that exist,
  each with its size; a pipeline is the path of its input. Every image is 1000 x 500,
  written files have 7 bytes, and the directory \<open>in\<close> holds \<open>a.jpg\<close>, \<open>a.png\<close> and
  \<open>notes.txt\<close>. Paths are joined with a slash.
\<close>

definition demo_basename :: "path \<Rightarrow> string" where
  "demo_basename p = rev (takeWhile (\<lambda>c. c \<noteq> CHR ''/'') (rev p))"

definition demo_extname :: "path \<Rightarrow> string" where
  "demo_extname p =
    (if CHR ''.'' \<in> set (demo_basename p)
     then CHR ''.'' # rev (takeWhile (\<lambda>c. c \<noteq> CHR ''.'') (rev p))
     else [])"

definition demoEnv :: "((path \<times> nat) list, path) Env" where
  "demoEnv =
    \<lparr>fs_stat = (\<lambda>p w. (case map_of w p of
                          None \<Rightarrow> Inl (Error ''ENOENT'')
                        | Some n \<Rightarrow> Inr \<lparr>stat_size = n, stat_isDirectory = False\<rparr>, w)),
     fs_access = (\<lambda>p w. (case map_of w p of
                            None \<Rightarrow> Inl (Error ''ENOENT'')
                          | Some n \<Rightarrow> Inr (), w)),
     fs_mkdir = (\<lambda>p w. (Inr (), w)),
     fs_readdir = (\<lambda>p w.
         (if p = ''in''
          then Inr [\<lparr>name = ''a.jpg'', isDirectory = False, isFile = True\<rparr>,
                    \<lparr>name = ''a.png'', isDirectory = False, isFile = True\<rparr>,
                    \<lparr>name = ''notes.txt'', isDirectory = False, isFile = True\<rparr>]
          else Inl (Error ''ENOTDIR''), w)),
     sharp = (\<lambda>p. Inr p),
     sharp_metadata = (\<lambda>p w. (case map_of w p of
                                 None \<Rightarrow> Inl (Error ''Input file is missing'')
                               | Some n \<Rightarrow> Inr \<lparr>md_width = Some 1000, md_height = Some 500\<rparr>,
                               w)),
     sharp_resize = (\<lambda>p w h opts. Inr p),
     sharp_toFormat = (\<lambda>p f q. Inr p),
     sharp_toFile = (\<lambda>p out w. (Inr (), (out, 7) # w)),
     path_dirname = (\<lambda>p. if CHR ''/'' \<in> set p
                          then take (length p - length (demo_basename p) - 1) p else ''.''),
     path_extname = demo_extname,
     path_basename = (\<lambda>p ext. take (length (demo_basename p) - length ext) (demo_basename p)),
     path_relative = (\<lambda>dir p. drop (length dir + 1) p),
     path_join = (\<lambda>a b. a @ ''/'' @ b)\<rparr>"

definition demoState :: "(path \<times> nat) list state" where
  "demoState = \<lparr>world = [(''in/a.jpg'', 10), (''in/a.png'', 20), (''in/notes.txt'', 5)],
                calls = []\<rparr>"

definition demoCli :: CliOptions where
  "demoCli =
    \<lparr>format = ''PNG'', width = Some 500, height = None, minWidth = None, minHeight = None,
     maxWidth = None, maxHeight = None, quality = None, allowUpscale = None,
     cli_input = ''in'', cli_output = ''out'', recursive = None, overwrite = None,
     dryRun = None, verbose = None, silent = None, config = None\<rparr>"


section \<open>Rounding and the resolver\<close>





lemma truthy_Some: "truthy x \<Longrightarrow> \<exists>n. x = Some n \<and> n \<noteq> 0"
  by (cases x) auto

lemma floor_half_nonneg: "0 \<le> x \<Longrightarrow> 0 \<le> \<lfloor>(x :: rat) + 1 / 2\<rfloor>"
  by simp





lemma num_neq [simp]: "num m \<noteq> NaN" "num m \<noteq> PInf" "(num m = Fin 0) = (m = 0)"
  by (simp_all add: num_def)

lemma Math_round_neq [simp]: "(Math_round x = NaN) = (x = NaN)" "(Math_round x = PInf) = (x = PInf)"
  by (cases x; simp)+

lemma scale_no_NaN:
  assumes "sane (a, b)" "m \<noteq> 0"
  shows "jmul b (jdiv (num m) a) \<noteq> NaN"
  using assms by (cases a; cases b) (auto simp: sane_def num_def)


lemma sane_swap: "sane (a, b) \<Longrightarrow> sane (b, a)"
  by (auto simp: sane_def)




lemma sane_applyMaxHeight: "sane v \<Longrightarrow> sane (applyMaxHeight options v)"
proof (cases v)
  case (Pair w h)
  assume s: "sane v"
  show ?thesis
  proof (cases "truthy (maxHeight options) \<and> jgt h (toNum (maxHeight options))")
    case False
    with s Pair show ?thesis by (auto simp: applyMaxHeight_def)
  next
    case True
    then obtain m where m: "maxHeight options = Some m" "m \<noteq> 0"
      using truthy_Some by blast
    have "sane (h, w)" using s Pair by (auto simp: sane_def)
    then show ?thesis
      using True m Pair scale_no_NaN [of h w m]
      by (simp add: applyMaxHeight_def Let_def sane_def)
  qed
qed












text \<open>
  Claim C1. In the minimum-width block with upscaling not allowed (\<open>minWidth\<close> set, the
  current width below it, \<open>allowUpscale\<close> falsy), the width becomes \<open>minWidth\<close> and the
  height is recomputed as \<open>round (height * minWidth / w)\<close> with \<open>w\<close> the width after the
  assignment, that is \<open>round (height * minWidth / minWidth)\<close>, which is \<open>round height\<close>:
  the height does not follow the width and the aspect ratio is not kept.
\<close>

theorem minWidth_no_upscale:
  assumes "truthy (minWidth options)"
    and "jlt w (toNum (minWidth options))"
    and "\<not> truthy_bool (allowUpscale options)"
  shows "applyMinWidth options (w, h) =
           (toNum (minWidth options),
            Math_round (jdiv (jmul h (toNum (minWidth options))) (toNum (minWidth options))))
         \<and> Math_round (jdiv (jmul h (toNum (minWidth options))) (toNum (minWidth options)))
             = Math_round h"
proof -
  from assms(1) obtain m where m: "minWidth options = Some m" "m \<noteq> 0"
    using truthy_Some by blast
  have "jdiv (jmul h (num m)) (num m) = h"
    using m(2) by (cases h) (simp_all add: num_def)
  then show ?thesis
    using assms m by (simp add: applyMinWidth_def Let_def)
qed

theorem minWidth_no_upscale_witness:
  "truthy (minWidth (noOptions\<lparr>minWidth := Some 200\<rparr>))
   \<and> jlt (num 100) (toNum (minWidth (noOptions\<lparr>minWidth := Some 200\<rparr>)))
   \<and> \<not> truthy_bool (allowUpscale (noOptions\<lparr>minWidth := Some 200\<rparr>))
   \<and> applyMinWidth (noOptions\<lparr>minWidth := Some 200\<rparr>) (num 100, num 50) = (num 200, num 50)
   \<and> Math_round (jdiv (jmul (num 50) (num 200)) (num 100)) = num 100
   \<and> calculateTargetDimensions 100 50 (noOptions\<lparr>minWidth := Some 200\<rparr>) = (num 200, num 50)"
proof -
  let ?o = "noOptions\<lparr>minWidth := Some 200\<rparr>"
  have h1: "truthy (minWidth ?o)" by code_simp
  have h2: "jlt (num 100) (toNum (minWidth ?o))" by code_simp
  have h3: "\<not> truthy_bool (allowUpscale ?o)" by code_simp
  have e1: "toNum (minWidth ?o) = num 200" by code_simp
  have e2: "Math_round (num 50) = num 50" by code_simp
  have e3: "Math_round (jdiv (jmul (num 50) (num 200)) (num 100)) = num 100" by code_simp
  have e4: "calculateTargetDimensions 100 50 ?o = (num 200, num 50)" by code_simp
  from minWidth_no_upscale [OF h1 h2 h3, of "num 50"]
  have "applyMinWidth ?o (num 100, num 50) = (num 200, num 50)"
    by (simp only: e1 e2)
  with h1 h2 h3 e3 e4 show ?thesis by blast
qed





text \<open>
  Claim C6. When none of \<open>width\<close>, \<open>height\<close>, \<open>minWidth\<close>, \<open>minHeight\<close>, \<open>maxWidth\<close>,
  \<open>maxHeight\<close> is set, the resolver returns the original dimensions.
\<close>

theorem no_constraint:
  assumes "\<not> truthy (width options)" "\<not> truthy (height options)"
    and "\<not> truthy (minWidth options)" "\<not> truthy (minHeight options)"
    and "\<not> truthy (maxWidth options)" "\<not> truthy (maxHeight options)"
  shows "calculateTargetDimensions ow oh options = (num ow, num oh)"
  using assms
  by (simp add: calculateTargetDimensions_def applySize_def applyMinWidth_def
      applyMinHeight_def applyMaxWidth_def applyMaxHeight_def Let_def)

theorem no_constraint_witness:
  "\<not> truthy (width noOptions) \<and> \<not> truthy (height noOptions)
   \<and> \<not> truthy (minWidth noOptions) \<and> \<not> truthy (minHeight noOptions)
   \<and> \<not> truthy (maxWidth noOptions) \<and> \<not> truthy (maxHeight noOptions)
   \<and> calculateTargetDimensions 640 480 noOptions = (num 640, num 480)"
proof -
  have o: "\<not> truthy (width noOptions)" "\<not> truthy (height noOptions)"
    "\<not> truthy (minWidth noOptions)" "\<not> truthy (minHeight noOptions)"
    "\<not> truthy (maxWidth noOptions)" "\<not> truthy (maxHeight noOptions)"
    by (simp_all add: noOptions_def)
  from no_constraint [OF o, of 640 480] o show ?thesis by blast
qed

text \<open>
  Claim C5. The maxima run after the minima and the minima are not checked again: the
  original 1000 x 1000 with \<open>minWidth = 500\<close> and \<open>maxHeight = 100\<close> resolves to
  100 x 100, a width below the minimum that is set.
\<close>

theorem max_beats_min:
  "calculateTargetDimensions 1000 1000
     (noOptions\<lparr>minWidth := Some 500, maxHeight := Some 100\<rparr>) = (num 100, num 100)
   \<and> truthy (minWidth (noOptions\<lparr>minWidth := Some 500, maxHeight := Some 100\<rparr>))
   \<and> jlt (fst (calculateTargetDimensions 1000 1000
            (noOptions\<lparr>minWidth := Some 500, maxHeight := Some 100\<rparr>)))
          (toNum (minWidth (noOptions\<lparr>minWidth := Some 500, maxHeight := Some 100\<rparr>)))"
  by code_simp

section \<open>Format normalization\<close>

lemma lowerChar_idem: "lowerChar (lowerChar c) = lowerChar c"
proof -
  define n where "n = (of_char c :: nat)"
  have n: "n < 256" unfolding n_def by simp
  show ?thesis
    using n by (auto simp: lowerChar_def Let_def n_def [symmetric])
qed

lemma toLowerCase_idem: "toLowerCase (toLowerCase s) = toLowerCase s"
  by (simp add: toLowerCase_def lowerChar_idem)

lemma jpeg_supported: "''jpeg'' \<in> set SUPPORTED_OUTPUT_FORMATS"
  by (simp add: SUPPORTED_OUTPUT_FORMATS_def)

lemma lower_examples:
  "toLowerCase ''JPG'' = ''jpg''" "toLowerCase ''jpg'' = ''jpg''"
  "toLowerCase ''jpeg'' = ''jpeg''"
  by code_simp+

text \<open>
  Claim C7. \<open>normalizeFormat\<close> lower-cases its input and maps \<open>jpg\<close> to \<open>jpeg\<close>: \<open>JPG\<close>,
  \<open>jpg\<close> and \<open>jpeg\<close> all give \<open>jpeg\<close>. For every input it returns the lower-cased and
  jpg-mapped string when that is one of \<open>SUPPORTED_OUTPUT_FORMATS\<close>, and otherwise, and only
  then, it throws the error \<open>Unsupported format\<close> followed by the input.
\<close>

theorem normalizeFormat_spec:
  "normalizeFormat ''JPG'' = Inr ''jpeg'' \<and> normalizeFormat ''jpg'' = Inr ''jpeg''
   \<and> normalizeFormat ''jpeg'' = Inr ''jpeg''
   \<and> normalizeFormat s =
       (let lowered = toLowerCase s;
            canonical = (if lowered = ''jpg'' then ''jpeg'' else lowered)
        in if canonical \<in> set SUPPORTED_OUTPUT_FORMATS then Inr canonical
           else Inl (Error (''Unsupported format: '' @ s)))"
proof -
  have a: "normalizeFormat ''JPG'' = Inr ''jpeg''" "normalizeFormat ''jpg'' = Inr ''jpeg''"
     "normalizeFormat ''jpeg'' = Inr ''jpeg''"
    by code_simp+
  have b: "normalizeFormat s =
       (let lowered = toLowerCase s;
            canonical = (if lowered = ''jpg'' then ''jpeg'' else lowered)
        in if canonical \<in> set SUPPORTED_OUTPUT_FORMATS then Inr canonical
           else Inl (Error (''Unsupported format: '' @ s)))"
    by (simp add: normalizeFormat_def Let_def isSupportedOutputFormat_def
        toLowerCase_idem jpeg_supported)
  from a b show ?thesis by blast
qed

theorem normalizeFormat_spec_witness:
  "normalizeFormat ''WebP'' = Inr ''webp''
   \<and> normalizeFormat ''heic'' = Inl (Error ''Unsupported format: heic'')"
proof -
  have l: "toLowerCase ''WebP'' = ''webp''" "toLowerCase ''heic'' = ''heic''" by code_simp+
  have m: "''webp'' \<in> set SUPPORTED_OUTPUT_FORMATS" "''heic'' \<notin> set SUPPORTED_OUTPUT_FORMATS"
    by (simp_all add: SUPPORTED_OUTPUT_FORMATS_def)
  from normalizeFormat_spec [of "''WebP''"] normalizeFormat_spec [of "''heic''"]
  show ?thesis by (simp add: l m)
qed

section \<open>The converter captures every exception\<close>











section \<open>The batch loop and the summary\<close>

lemma grows_call: "grows (call c f)"
  by (auto simp: grows_def call_def split: prod.splits)

lemma grows_ret: "grows (ret v)"
  by (simp add: grows_def ret_def)

lemma grows_throw: "grows (throw e)"
  by (simp add: grows_def throw_def)

lemma grows_lift: "grows (lift r)"
  by (simp add: grows_def lift_def)

lemma grows_andThen: "grows m \<Longrightarrow> (\<And>x. grows (f x)) \<Longrightarrow> grows (andThen m f)"
  unfolding grows_def andThen_def
  by (fastforce split: prod.splits sum.splits)

lemma grows_if: "grows a \<Longrightarrow> grows b \<Longrightarrow> grows (if c then a else b)"
  by simp

lemma grows_option: "grows a \<Longrightarrow> (\<And>x. grows (b x)) \<Longrightarrow> grows (case v of None \<Rightarrow> a | Some x \<Rightarrow> b x)"
  by (cases v) simp_all

lemma grows_prod: "(\<And>x y. grows (b x y)) \<Longrightarrow> grows (case v of (x, y) \<Rightarrow> b x y)"
  by (cases v) simp

lemma grows_let: "(\<And>x. grows (b x)) \<Longrightarrow> grows (Let v b)"
  by (simp add: Let_def)

lemma after_first_call:
  assumes "\<And>x. grows (f x)"
  shows "\<exists>cs. calls (snd (andThen (call c g) f s)) = calls s @ c # cs"
proof (cases "g (world s)")
  case (Pair r w)
  show ?thesis
  proof (cases r)
    case (Inl e)
    with Pair show ?thesis by (simp add: andThen_def call_def)
  next
    case (Inr x)
    obtain r2 s2 where f: "f x \<lparr>world = w, calls = calls s @ [c]\<rparr> = (r2, s2)"
      by (cases "f x \<lparr>world = w, calls = calls s @ [c]\<rparr>")
    with assms [of x] obtain cs where "calls s2 = (calls s @ [c]) @ cs"
      unfolding grows_def by fastforce
    with Pair Inr f show ?thesis by (simp add: andThen_def call_def)
  qed
qed

text \<open>
  Every run of \<open>processImage\<close> starts with \<open>fs.stat\<close> of its input, so an iteration that
  records no such call has not run the converter.
\<close>

lemma processImage_try_first_call:
  "\<exists>cs. calls (snd (processImage_try env inPath outPath options s)) = calls s @ Stat inPath # cs"
  unfolding processImage_try_def
  by (rule after_first_call)
     (intro grows_andThen grows_let grows_option grows_throw grows_if grows_prod grows_ret
        grows_lift grows_call)

lemma processImage_first_call:
  "\<exists>cs. calls (snd (processImage env inPath outPath options s)) = calls s @ Stat inPath # cs"
  using processImage_try_first_call [of env inPath outPath options s]
  by (auto simp: processImage_def try_catch_def ret_def split: prod.splits sum.splits)

lemma length_filter_split:
  "length (filter (\<lambda>r. \<not> P r) xs) = length xs - length (filter P xs)"
  using sum_length_filter_compl [of P xs] by simp

text \<open>
  Claim C10. Every summary that \<open>convertDirectory\<close> returns has \<open>total\<close> the length of
  its results, \<open>successful\<close> the number of results with \<open>success\<close>, and \<open>failed\<close> both
  \<open>total - successful\<close> and the number of results without \<open>success\<close>. The results are
  empty or exactly the list that the loop returned, in the state that the loop left.
\<close>

theorem summary_counts:
  assumes "convertDirectory fuel env inputDir outputDir options s = Some (Inr summary, s')"
  shows "total_count summary = length (results summary)
       \<and> successful summary = length (filter success (results summary))
       \<and> failed summary = total_count summary - successful summary
       \<and> failed summary = length (filter (\<lambda>r. \<not> success r) (results summary))
       \<and> (results summary = [] \<or>
          (\<exists>fmt imageFiles s2.
              convertDirectory_loop env inputDir outputDir fmt options imageFiles [] s2
                = (Inr (results summary), s')))"
  using assms
  by (auto simp: convertDirectory_def andThen_def lift_def ret_def Let_def length_filter_split
      split: prod.splits sum.splits option.splits if_splits)

theorem summary_counts_witness:
  "\<exists>summary s'. convertDirectory 2 demoEnv ''in'' ''out'' demoCli demoState = Some (Inr summary, s')
      \<and> total_count summary = length (results summary)
      \<and> successful summary = length (filter success (results summary))
      \<and> failed summary = total_count summary - successful summary
      \<and> total_count summary = 2 \<and> successful summary = 1 \<and> failed summary = 1"
proof -
  let ?sum = "\<lparr>total_count = 2, successful = 1, failed = 1,
          results =
            [\<lparr>inputPath = ''in/a.jpg'', outputPath = ''out/a.png'',
                success = True, error = None, originalSize = Some 10,
                newSize = Some 7\<rparr>,
             \<lparr>inputPath = ''in/a.png'', outputPath = ''out/a.png'',
                success = False,
                error = Some ''Output file already exists. Use --overwrite to replace it.'',
                originalSize = None, newSize = None\<rparr>]\<rparr>"
  let ?fin = "\<lparr>world =
      [(''out/a.png'', 7), (''in/a.jpg'', 10), (''in/a.png'', 20), (''in/notes.txt'', 5)],
      calls =
        [Mkdir ''out'', Readdir ''in'', Access ''out/a.png'', Mkdir ''out'',
         Stat ''in/a.jpg'', ReadMetadata ''in/a.jpg'', ToFile ''out/a.png'',
         Stat ''out/a.png'', Access ''out/a.png'']\<rparr>"
  have e: "convertDirectory 2 demoEnv ''in'' ''out'' demoCli demoState = Some (Inr ?sum, ?fin)"
    by code_simp
  have n: "total_count ?sum = 2 \<and> successful ?sum = 1 \<and> failed ?sum = 1" by simp
  from summary_counts [OF e] e n show ?thesis by blast
qed

text \<open>The single-file entry point makes the same check after creating the directory.\<close>

lemma convertSingleImage_skip_existing:
  assumes "\<not> truthy_bool (overwrite options)"
    and "fs_mkdir env (path_dirname env outPath) (world s) = (Inr (), w0)"
    and "fs_access env outPath w0 = (Inr (), w1)"
  shows "convertSingleImage env inPath outPath options s =
           (Inr (existsFailure inPath outPath),
            \<lparr>world = w1,
             calls = calls s @ [Mkdir (path_dirname env outPath), Access outPath]\<rparr>)"
  using assms
  by (simp add: convertSingleImage_def andThen_def ifSucceeds_def call_def ret_def Let_def)

text \<open>
  Claim C9. In any iteration of the loop, in whatever state the earlier iterations have
  left, when overwriting is not permitted and \<open>fs.access\<close> of the computed output path
  succeeds, the iteration pushes the failure with the fixed message, makes no call but that
  \<open>fs.access\<close>, and the loop goes on with the remaining files.
\<close>

theorem skip_existing:
  assumes "\<not> truthy_bool (overwrite options)"
    and "fs_access env (generateOutputPath env inPath inputDir outputDir fmt) (world s) = (Inr (), w)"
  shows "convertDirectory_body env inputDir outputDir fmt options inPath s =
           (Inr \<lparr>inputPath = inPath,
                 outputPath = generateOutputPath env inPath inputDir outputDir fmt,
                 success = False,
                 error = Some ''Output file already exists. Use --overwrite to replace it.'',
                 originalSize = None, newSize = None\<rparr>,
            \<lparr>world = w,
             calls = calls s @ [Access (generateOutputPath env inPath inputDir outputDir fmt)]\<rparr>)
       \<and> convertDirectory_loop env inputDir outputDir fmt options (inPath # rest) rs s =
         convertDirectory_loop env inputDir outputDir fmt options rest
           (rs @ [\<lparr>inputPath = inPath,
                   outputPath = generateOutputPath env inPath inputDir outputDir fmt,
                   success = False,
                   error = Some ''Output file already exists. Use --overwrite to replace it.'',
                   originalSize = None, newSize = None\<rparr>])
           \<lparr>world = w,
            calls = calls s @ [Access (generateOutputPath env inPath inputDir outputDir fmt)]\<rparr>"
  using assms
  by (simp add: convertDirectory_body_def ifSucceeds_def call_def ret_def Let_def
      existsFailure_def)

theorem skip_existing_witness:
  "convertDirectory_body demoEnv ''in'' ''out'' ''png'' demoCli ''in/a.jpg'' demoState =
     (Inr \<lparr>inputPath = ''in/a.jpg'', outputPath = ''out/a.png'', success = True,
           error = None, originalSize = Some 10, newSize = Some 7\<rparr>,
      \<lparr>world = [(''out/a.png'', 7), (''in/a.jpg'', 10), (''in/a.png'', 20), (''in/notes.txt'', 5)],
       calls = [Access ''out/a.png'', Mkdir ''out'', Stat ''in/a.jpg'', ReadMetadata ''in/a.jpg'',
                ToFile ''out/a.png'', Stat ''out/a.png'']\<rparr>)
   \<and> \<not> truthy_bool (overwrite demoCli)
   \<and> fs_access demoEnv (generateOutputPath demoEnv ''in/a.png'' ''in'' ''out'' ''png'')
        [(''out/a.png'', 7), (''in/a.jpg'', 10), (''in/a.png'', 20), (''in/notes.txt'', 5)]
       = (Inr (), [(''out/a.png'', 7), (''in/a.jpg'', 10), (''in/a.png'', 20), (''in/notes.txt'', 5)])
   \<and> convertDirectory_loop demoEnv ''in'' ''out'' ''png'' demoCli [''in/a.png'']
        [\<lparr>inputPath = ''in/a.jpg'', outputPath = ''out/a.png'', success = True,
           error = None, originalSize = Some 10, newSize = Some 7\<rparr>]
        \<lparr>world = [(''out/a.png'', 7), (''in/a.jpg'', 10), (''in/a.png'', 20), (''in/notes.txt'', 5)],
         calls = [Access ''out/a.png'', Mkdir ''out'', Stat ''in/a.jpg'', ReadMetadata ''in/a.jpg'',
                  ToFile ''out/a.png'', Stat ''out/a.png'']\<rparr>
       = (Inr [\<lparr>inputPath = ''in/a.jpg'', outputPath = ''out/a.png'', success = True,
                 error = None, originalSize = Some 10, newSize = Some 7\<rparr>,
               \<lparr>inputPath = ''in/a.png'', outputPath = ''out/a.png'', success = False,
                 error = Some ''Output file already exists. Use --overwrite to replace it.'',
                 originalSize = None, newSize = None\<rparr>],
          \<lparr>world = [(''out/a.png'', 7), (''in/a.jpg'', 10), (''in/a.png'', 20), (''in/notes.txt'', 5)],
           calls = [Access ''out/a.png'', Mkdir ''out'', Stat ''in/a.jpg'', ReadMetadata ''in/a.jpg'',
                    ToFile ''out/a.png'', Stat ''out/a.png'', Access ''out/a.png'']\<rparr>)"
proof -
  let ?w = "[(''out/a.png'', 7), (''in/a.jpg'', 10), (''in/a.png'', 20), (''in/notes.txt'', 5 :: nat)]"
  let ?s1 = "\<lparr>world = ?w,
       calls = [Access ''out/a.png'', Mkdir ''out'', Stat ''in/a.jpg'', ReadMetadata ''in/a.jpg'',
                ToFile ''out/a.png'', Stat ''out/a.png'']\<rparr>"
  have first: "convertDirectory_body demoEnv ''in'' ''out'' ''png'' demoCli ''in/a.jpg'' demoState =
     (Inr \<lparr>inputPath = ''in/a.jpg'', outputPath = ''out/a.png'', success = True,
           error = None, originalSize = Some 10, newSize = Some 7\<rparr>, ?s1)"
    by code_simp
  have h1: "\<not> truthy_bool (overwrite demoCli)" by code_simp
  have g: "generateOutputPath demoEnv ''in/a.png'' ''in'' ''out'' ''png'' = ''out/a.png''"
    by code_simp
  have h2: "fs_access demoEnv (generateOutputPath demoEnv ''in/a.png'' ''in'' ''out'' ''png'') ?w
       = (Inr (), ?w)"
    by code_simp
  have h2': "fs_access demoEnv (generateOutputPath demoEnv ''in/a.png'' ''in'' ''out'' ''png'')
       (world ?s1) = (Inr (), ?w)"
    using h2 by simp
  from skip_existing [OF h1 h2', of "[]"
      "[\<lparr>inputPath = ''in/a.jpg'', outputPath = ''out/a.png'', success = True,
           error = None, originalSize = Some 10, newSize = Some 7\<rparr>]"]
  have "convertDirectory_loop demoEnv ''in'' ''out'' ''png'' demoCli [''in/a.png'']
        [\<lparr>inputPath = ''in/a.jpg'', outputPath = ''out/a.png'', success = True,
           error = None, originalSize = Some 10, newSize = Some 7\<rparr>] ?s1
       = (Inr [\<lparr>inputPath = ''in/a.jpg'', outputPath = ''out/a.png'', success = True,
                 error = None, originalSize = Some 10, newSize = Some 7\<rparr>,
               \<lparr>inputPath = ''in/a.png'', outputPath = ''out/a.png'', success = False,
                 error = Some ''Output file already exists. Use --overwrite to replace it.'',
                 originalSize = None, newSize = None\<rparr>],
          \<lparr>world = ?w,
           calls = [Access ''out/a.png'', Mkdir ''out'', Stat ''in/a.jpg'', ReadMetadata ''in/a.jpg'',
                    ToFile ''out/a.png'', Stat ''out/a.png'', Access ''out/a.png'']\<rparr>)"
    by (simp add: g)
  with first h1 h2 show ?thesis by blast
qed

end
